theory Spec2Isabelle
  imports
    Complex_Main
    "HOL-Library.Multiset"
    "HOL-Library.List_Lexorder"
    "HOL-Library.Char_ord"
    "HOL-Library.Product_Lexorder"
begin

section \<open>Differential selection (dms\_tools2/diffsel.py)\<close>

text \<open>
  The module holds two functions over pandas data frames:
  \<^verbatim>\<open>computeMutDiffSel\<close>, which turns per-site character counts of a
  selected and a mock-selected sample (and optionally an error control) into
  the differential selection of every mutation, and \<^verbatim>\<open>mutToSiteDiffSel\<close>,
  which summarises those values per site.

  Both are embedded as total functions: a data frame is a list of rows, a
  raised exception is the left injection of a sum.
\<close>

subsection \<open>Floating-point values\<close>

text \<open>
  A column of dtype float holds a finite number, an infinity or NaN. The
  finite numbers are taken as exact reals: rounding and the sign of zero are
  not represented, the special values and their propagation are (pandas and
  numpy divide by zero without raising).
\<close>

datatype fl = Fin real | PInf | NInf | NaN

fun fneg :: "fl \<Rightarrow> fl" where
  "fneg (Fin a) = Fin (- a)"
| "fneg PInf = NInf"
| "fneg NInf = PInf"
| "fneg NaN = NaN"

fun fadd :: "fl \<Rightarrow> fl \<Rightarrow> fl" where
  "fadd NaN y = NaN"
| "fadd x NaN = NaN"
| "fadd (Fin a) (Fin b) = Fin (a + b)"
| "fadd (Fin a) y = y"
| "fadd x (Fin b) = x"
| "fadd PInf PInf = PInf"
| "fadd NInf NInf = NInf"
| "fadd PInf NInf = NaN"
| "fadd NInf PInf = NaN"

definition fsub :: "fl \<Rightarrow> fl \<Rightarrow> fl" where
  "fsub x y = fadd x (fneg y)"

text \<open>Sign of a value other than NaN: \<open>-1\<close>, \<open>0\<close> or \<open>1\<close>.\<close>

fun fsgn :: "fl \<Rightarrow> int" where
  "fsgn (Fin a) = (if 0 < a then 1 else if a < 0 then - 1 else 0)"
| "fsgn PInf = 1"
| "fsgn NInf = - 1"
| "fsgn NaN = 0"

definition inf_of_sign :: "int \<Rightarrow> fl" where
  "inf_of_sign s = (if 0 < s then PInf else if s < 0 then NInf else NaN)"

fun fmul :: "fl \<Rightarrow> fl \<Rightarrow> fl" where
  "fmul NaN y = NaN"
| "fmul x NaN = NaN"
| "fmul (Fin a) (Fin b) = Fin (a * b)"
| "fmul x y = inf_of_sign (fsgn x * fsgn y)"

text \<open>
  Division of two float columns: \<open>x / 0\<close> is an infinity with the sign of \<open>x\<close>,
  \<open>0 / 0\<close> and \<open>inf / inf\<close> are NaN, a finite number over an infinity is \<open>0\<close>.
\<close>

fun fdiv :: "fl \<Rightarrow> fl \<Rightarrow> fl" where
  "fdiv NaN y = NaN"
| "fdiv x NaN = NaN"
| "fdiv (Fin a) (Fin b) = (if b = 0 then inf_of_sign (fsgn (Fin a)) else Fin (a / b))"
| "fdiv (Fin a) y = Fin 0"
| "fdiv x (Fin b) = (if b < 0 then fneg x else x)"
| "fdiv x y = NaN"

text \<open>\<^verbatim>\<open>numpy.maximum\<close>: the larger value, NaN as soon as one argument is NaN.\<close>

fun maximum :: "fl \<Rightarrow> fl \<Rightarrow> fl" where
  "maximum NaN y = NaN"
| "maximum x NaN = NaN"
| "maximum (Fin a) (Fin b) = Fin (max a b)"
| "maximum PInf y = PInf"
| "maximum x PInf = PInf"
| "maximum NInf y = y"
| "maximum x NInf = x"

text \<open>\<^verbatim>\<open>numpy.minimum\<close>, likewise.\<close>

fun minimum :: "fl \<Rightarrow> fl \<Rightarrow> fl" where
  "minimum NaN y = NaN"
| "minimum x NaN = NaN"
| "minimum (Fin a) (Fin b) = Fin (min a b)"
| "minimum NInf y = NInf"
| "minimum x NInf = NInf"
| "minimum PInf y = y"
| "minimum x PInf = x"

text \<open>Comparison of a float with a number: false on NaN.\<close>

fun fge :: "fl \<Rightarrow> real \<Rightarrow> bool" where
  "fge (Fin a) c = (c \<le> a)"
| "fge PInf c = True"
| "fge NInf c = False"
| "fge NaN c = False"

fun fle :: "fl \<Rightarrow> real \<Rightarrow> bool" where
  "fle (Fin a) c = (a \<le> c)"
| "fle PInf c = False"
| "fle NInf c = True"
| "fle NaN c = False"

fun fabs :: "fl \<Rightarrow> fl" where
  "fabs (Fin a) = Fin \<bar>a\<bar>"
| "fabs PInf = PInf"
| "fabs NInf = PInf"
| "fabs NaN = NaN"

text \<open>
  \<^verbatim>\<open>numpy.log2\<close>: minus infinity at \<open>0\<close>, NaN below \<open>0\<close>; it warns but
  does not raise.
\<close>

fun log2 :: "fl \<Rightarrow> fl" where
  "log2 (Fin a) = (if 0 < a then Fin (log 2 a) else if a = 0 then NInf else NaN)"
| "log2 PInf = PInf"
| "log2 NInf = NaN"
| "log2 NaN = NaN"

primrec fsum :: "fl list \<Rightarrow> fl" where
  "fsum [] = Fin 0"
| "fsum (x # xs) = fadd x (fsum xs)"

text \<open>The sum of pandas, per group or per row: NaN entries are skipped.\<close>

definition pd_sum :: "fl list \<Rightarrow> fl" where
  "pd_sum xs = fsum (filter (\<lambda>x. x \<noteq> NaN) xs)"

definition fillna :: "real \<Rightarrow> fl \<Rightarrow> fl" where
  "fillna c x = (if x = NaN then Fin c else x)"

subsection \<open>Exceptions and data frames\<close>

datatype error = AssertionError string | ValueError string

text \<open>
  A table of counts has the columns \<^verbatim>\<open>site\<close>, \<^verbatim>\<open>wildtype\<close> and one
  column of integer counts per character. A row carries its index label,
  which sorting keeps; \<open>cell r c\<close> is the count of row \<open>r\<close> in column \<open>c\<close> and
  is read only for the columns of the frame.
\<close>

record count_row =
  label :: int
  site :: int
  wildtype :: string
  cell :: "string \<Rightarrow> int"

record frame =
  columns :: "string list"
  rows :: "count_row list"

text \<open>
  \<^verbatim>\<open>df.sort_values('site')\<close>; the row labels move with the rows. Rows of
  the same site keep their order here, which the sort of pandas does not
  promise; the statements about results are about tables with distinct sites.
\<close>

definition sort_values_site :: "frame \<Rightarrow> frame" where
  "sort_values_site df = df\<lparr>rows := sort_key site (rows df)\<rparr>"

text \<open>
  A column of a frame is a series of labelled values. Comparing two series
  with \<^verbatim>\<open>==\<close> raises ValueError unless they carry the same labels in the
  same order; otherwise it compares position by position.
\<close>

definition series :: "(count_row \<Rightarrow> 'a) \<Rightarrow> frame \<Rightarrow> (int \<times> 'a) list" where
  "series f df = map (\<lambda>r. (label r, f r)) (rows df)"

definition series_eq :: "(int \<times> 'a) list \<Rightarrow> (int \<times> 'a) list \<Rightarrow> error + bool list" where
  "series_eq xs ys =
     (if map fst xs = map fst ys
      then Inr (map (\<lambda>(x, y). snd x = snd y) (zip xs ys))
      else Inl (ValueError ''Can only compare identically-labeled Series objects''))"

text \<open>\<^verbatim>\<open>assert all(a == b), msg\<close> for two series.\<close>

definition assert_all_eq :: "(int \<times> 'a) list \<Rightarrow> (int \<times> 'a) list \<Rightarrow> string \<Rightarrow> error option" where
  "assert_all_eq xs ys msg =
     (case series_eq xs ys of
        Inl e \<Rightarrow> Some e
      | Inr bs \<Rightarrow> if list_all (\<lambda>b. b) bs then None else Some (AssertionError msg))"

subsection \<open>The melted frame\<close>

text \<open>
  \<^verbatim>\<open>df.melt(id_vars=['site', 'wildtype'], var_name='mutation', value_name='n')\<close>
  stacks the remaining columns, one after the other in the order of the frame;
  the result is sorted by site and mutation, re-indexed from \<open>0\<close>, and gets the
  column \<^verbatim>\<open>N\<close>, the sum of \<^verbatim>\<open>n\<close> over the rows of the same site.
\<close>

record long_row =
  l_site :: int
  l_wildtype :: string
  l_mutation :: string
  n :: int

definition value_vars :: "frame \<Rightarrow> string list" where
  "value_vars df = filter (\<lambda>c. c \<noteq> ''site'' \<and> c \<noteq> ''wildtype'') (columns df)"

definition melt :: "frame \<Rightarrow> long_row list" where
  "melt df =
     concat (map (\<lambda>c. map (\<lambda>r. \<lparr>l_site = site r, l_wildtype = wildtype r,
                                 l_mutation = c, n = cell r c\<rparr>) (rows df))
                 (value_vars df))"

definition m_name :: "frame \<Rightarrow> long_row list" where
  "m_name df = sort_key (\<lambda>r. (l_site r, l_mutation r)) (melt df)"

text \<open>\<^verbatim>\<open>m_name.groupby('site').transform('sum')['n']\<close> at one row.\<close>

definition N :: "long_row list \<Rightarrow> long_row \<Rightarrow> int" where
  "N ms r = sum_list (map n (filter (\<lambda>r'. l_site r' = l_site r) ms))"

text \<open>
  The frame \<^verbatim>\<open>m\<close> of the calculation: the key columns of the first sample
  and the float columns \<^verbatim>\<open>nsel\<close>, \<^verbatim>\<open>Nsel\<close>, \<^verbatim>\<open>nmock\<close>, \<^verbatim>\<open>Nmock\<close>.
\<close>

record mrow =
  m_site :: int
  m_wildtype :: string
  mutation :: string
  nsel :: fl
  Nsel :: fl
  nmock :: fl
  Nmock :: fl

text \<open>
  \<^verbatim>\<open>assert all([all(m[c] == m_name[c]) for c in ['site', 'wildtype', 'mutation']])\<close>:
  both frames are indexed from \<open>0\<close>, so the comparison raises exactly when the
  lengths differ.
\<close>

definition same_keys :: "long_row list \<Rightarrow> long_row list \<Rightarrow> error option" where
  "same_keys a b =
     (if length a \<noteq> length b
      then Some (ValueError ''Can only compare identically-labeled Series objects'')
      else if map l_site a = map l_site b \<and> map l_wildtype a = map l_wildtype b
              \<and> map l_mutation a = map l_mutation b
      then None else Some (AssertionError []))"

definition of_count :: "int \<Rightarrow> fl" where
  "of_count k = Fin (of_int k)"

definition join_row :: "long_row list \<Rightarrow> long_row list \<Rightarrow> long_row \<times> long_row \<Rightarrow> mrow" where
  "join_row msel mmock p =
     \<lparr>m_site = l_site (fst p), m_wildtype = l_wildtype (fst p), mutation = l_mutation (fst p),
      nsel = of_count (n (fst p)), Nsel = of_count (N msel (fst p)),
      nmock = of_count (n (snd p)), Nmock = of_count (N mmock (snd p))\<rparr>"

text \<open>
  The loop over \<^verbatim>\<open>[(sel, 'sel'), (mock, 'mock'), (err, 'err')]\<close>. The columns
  \<^verbatim>\<open>nerr\<close> and \<^verbatim>\<open>Nerr\<close> exist only when an error control is given;
  they are kept beside \<^verbatim>\<open>m\<close>, row by row.
\<close>

definition melted ::
  "frame \<Rightarrow> frame \<Rightarrow> frame option \<Rightarrow> error + (mrow list \<times> (fl \<times> fl) list option)" where
  "melted sel mock err =
     (let msel = m_name sel; mmock = m_name mock in
      case same_keys msel mmock of
        Some e \<Rightarrow> Inl e
      | None \<Rightarrow>
          (let m = map (join_row msel mmock) (zip msel mmock) in
           case err of
             None \<Rightarrow> Inr (m, None)
           | Some errdf \<Rightarrow>
               (let merr = m_name errdf in
                case same_keys msel merr of
                  Some e \<Rightarrow> Inl e
                | None \<Rightarrow> Inr (m, Some (map (\<lambda>e. (of_count (n e), of_count (N merr e))) merr)))))"

subsection \<open>Error correction\<close>

text \<open>
  \<^verbatim>\<open>assert all(m[wtmask] > 0), "err counts of 0 for wildtype"\<close>: the argument of
  \<^verbatim>\<open>all\<close> is a data frame, and iterating a data frame yields its column
  labels. The assertion therefore tests that no label of \<^verbatim>\<open>m\<close> is the
  empty string, whatever the counts are. (The comparison itself is taken to
  return a frame: the pandas the module was written for does not raise when a
  column of strings is compared with a number.)
\<close>

definition m_columns :: "string list" where
  "m_columns = [''site'', ''wildtype'', ''mutation'', ''nsel'', ''Nsel'', ''nmock'', ''Nmock'',
                ''nerr'', ''Nerr'', ''epsilon'']"

definition truthy :: "string \<Rightarrow> bool" where
  "truthy s = (s \<noteq> [])"

definition epsilon :: "fl \<times> fl \<Rightarrow> fl" where
  "epsilon e = fdiv (fst e) (snd e)"

text \<open>
  The corrected count of one row: \<^verbatim>\<open>n / epsilon\<close> where the mutation is the
  wildtype, \<^verbatim>\<open>numpy.maximum(0, N * (n / N - epsilon))\<close> elsewhere.
\<close>

definition corrected :: "bool \<Rightarrow> fl \<Rightarrow> fl \<Rightarrow> fl \<Rightarrow> fl" where
  "corrected wtmask nc Nc eps =
     (if wtmask then fdiv nc eps
      else maximum (Fin 0) (fmul Nc (fsub (fdiv nc Nc) eps)))"

definition wtmask :: "mrow \<Rightarrow> bool" where
  "wtmask r = (mutation r = m_wildtype r)"

definition correct_sel :: "mrow list \<Rightarrow> (fl \<times> fl) list \<Rightarrow> mrow list" where
  "correct_sel m errs =
     (let m1 = map (\<lambda>(r, e). r\<lparr>nsel := corrected (wtmask r) (nsel r) (Nsel r) (epsilon e)\<rparr>)
                   (zip m errs)
      in map (\<lambda>r. r\<lparr>Nsel := pd_sum (map nsel (filter (\<lambda>r'. m_site r' = m_site r) m1))\<rparr>) m1)"

definition correct_mock :: "mrow list \<Rightarrow> (fl \<times> fl) list \<Rightarrow> mrow list" where
  "correct_mock m errs =
     (let m1 = map (\<lambda>(r, e). r\<lparr>nmock := corrected (wtmask r) (nmock r) (Nmock r) (epsilon e)\<rparr>)
                   (zip m errs)
      in map (\<lambda>r. r\<lparr>Nmock := pd_sum (map nmock (filter (\<lambda>r'. m_site r' = m_site r) m1))\<rparr>) m1)"

definition error_correction :: "mrow list \<Rightarrow> (fl \<times> fl) list \<Rightarrow> error + mrow list" where
  "error_correction m errs =
     (if \<not> list_all truthy m_columns
      then Inl (AssertionError ''err counts of 0 for wildtype'')
      else Inr (correct_mock (correct_sel m errs) errs))"

subsection \<open>Translation of codons to amino acids\<close>

text \<open>
  \<^verbatim>\<open>CODONS\<close> and \<^verbatim>\<open>CODON_TO_AA\<close> come from the package and are parameters
  here. \<^verbatim>\<open>replace\<close> with a dictionary maps the values that are keys of the
  dictionary and leaves the others.
\<close>

definition replace :: "(string \<rightharpoonup> string) \<Rightarrow> string \<Rightarrow> string" where
  "replace d x = (case d x of None \<Rightarrow> x | Some y \<Rightarrow> y)"

text \<open>
  \<^verbatim>\<open>groupby(['site', 'wildtype', 'mutation', 'Nsel', 'Nmock']).sum().reset_index()\<close>:
  rows with NaN in a key are dropped, the groups come out sorted by key, and
  the remaining columns are summed within each group.
\<close>

fun fkey :: "fl \<Rightarrow> int \<times> real" where
  "fkey (Fin a) = (0, a)"
| "fkey PInf = (1, 0)"
| "fkey NInf = (- 1, 0)"
| "fkey NaN = (2, 0)"

definition of_fkey :: "int \<times> real \<Rightarrow> fl" where
  "of_fkey k = (if fst k = 0 then Fin (snd k) else if fst k = 1 then PInf
                else if fst k = - 1 then NInf else NaN)"

type_synonym gkey = "int \<times> string \<times> string \<times> (int \<times> real) \<times> (int \<times> real)"

definition group_key :: "mrow \<Rightarrow> gkey" where
  "group_key r = (m_site r, m_wildtype r, mutation r, fkey (Nsel r), fkey (Nmock r))"

definition group_row :: "mrow list \<Rightarrow> gkey \<Rightarrow> mrow" where
  "group_row m k =
     (case k of (s, w, c, a, b) \<Rightarrow>
        \<lparr>m_site = s, m_wildtype = w, mutation = c,
         nsel = pd_sum (map nsel (filter (\<lambda>r. group_key r = k) m)), Nsel = of_fkey a,
         nmock = pd_sum (map nmock (filter (\<lambda>r. group_key r = k) m)), Nmock = of_fkey b\<rparr>)"

definition groupby_sum :: "mrow list \<Rightarrow> mrow list" where
  "groupby_sum m =
     (let kept = filter (\<lambda>r. Nsel r \<noteq> NaN \<and> Nmock r \<noteq> NaN) m
      in map (group_row kept) (sort (remdups (map group_key kept))))"

definition to_aa :: "(string \<rightharpoonup> string) \<Rightarrow> mrow \<Rightarrow> mrow" where
  "to_aa d r = r\<lparr>m_wildtype := replace d (m_wildtype r), mutation := replace d (mutation r)\<rparr>"

definition translate ::
  "string list \<Rightarrow> (string \<rightharpoonup> string) \<Rightarrow> string list \<Rightarrow> mrow list \<Rightarrow> error + mrow list" where
  "translate CODONS CODON_TO_AA countcharacters m =
     (if set countcharacters \<noteq> set CODONS
      then Inl (AssertionError ''translate_to_aa specified, but not using codons'')
      else Inr (groupby_sum (map (to_aa CODON_TO_AA) m)))"

subsection \<open>Pseudocounts, wildtype columns and mutdiffsel\<close>

definition nselP :: "real \<Rightarrow> mrow \<Rightarrow> fl" where
  "nselP pseudocount r =
     fadd (nsel r) (fmul (Fin pseudocount) (maximum (Fin 1) (fdiv (Nsel r) (Nmock r))))"

definition nmockP :: "real \<Rightarrow> mrow \<Rightarrow> fl" where
  "nmockP pseudocount r =
     fadd (nmock r) (fmul (Fin pseudocount) (maximum (Fin 1) (fdiv (Nmock r) (Nsel r))))"

text \<open>
  \<^verbatim>\<open>m.merge(m.query('mutation==wildtype')[['site', 'nselP', 'nmockP']], on='site',
  suffixes=('', 'wt'))\<close>: an inner join, in the order of the left frame. Each
  row is paired with every wildtype row of its site; a row of a site without
  wildtype row is dropped.
\<close>

definition merge_wt :: "mrow list \<Rightarrow> (mrow \<times> mrow) list" where
  "merge_wt m =
     concat (map (\<lambda>r. map (\<lambda>w. (r, w)) (filter (\<lambda>w. m_site w = m_site r) (filter wtmask m))) m)"

definition enrichment :: "real \<Rightarrow> real \<Rightarrow> mrow \<times> mrow \<Rightarrow> fl" where
  "enrichment pseudocount mincount p =
     (case p of (r, w) \<Rightarrow>
        if mutation r \<noteq> m_wildtype r \<and> (fge (nsel r) mincount \<or> fge (nmock r) mincount)
        then fdiv (fdiv (nselP pseudocount r) (nselP pseudocount w))
                  (fdiv (nmockP pseudocount r) (nmockP pseudocount w))
        else NaN)"

record out_row =
  o_site :: int
  o_wildtype :: string
  o_mutation :: string
  mutdiffsel :: fl

definition out_of :: "real \<Rightarrow> real \<Rightarrow> mrow \<times> mrow \<Rightarrow> out_row" where
  "out_of pseudocount mincount p =
     \<lparr>o_site = m_site (fst p), o_wildtype = m_wildtype (fst p), o_mutation = mutation (fst p),
      mutdiffsel = log2 (enrichment pseudocount mincount p)\<rparr>"

definition diffsel_rows :: "real \<Rightarrow> real \<Rightarrow> mrow list \<Rightarrow> out_row list" where
  "diffsel_rows pseudocount mincount m = map (out_of pseudocount mincount) (merge_wt m)"

subsection \<open>computeMutDiffSel\<close>

definition bind :: "error + 'a \<Rightarrow> ('a \<Rightarrow> error + 'b) \<Rightarrow> error + 'b" where
  "bind x f = (case x of Inl e \<Rightarrow> Inl e | Inr v \<Rightarrow> f v)"

definition expectedcols :: "string list \<Rightarrow> string set" where
  "expectedcols countcharacters = set ([''site'', ''wildtype''] @ countcharacters)"

text \<open>Lines 43 to 58: the assertions on the arguments, and the sorting by site.\<close>

definition check_err :: "string list \<Rightarrow> frame \<Rightarrow> frame option \<Rightarrow> error + frame option" where
  "check_err countcharacters sel err =
     (case err of
        None \<Rightarrow> Inr None
      | Some errdf \<Rightarrow>
          if set (columns errdf) \<noteq> expectedcols countcharacters
          then Inl (AssertionError ''Invalid columns for err'')
          else (let errdf = sort_values_site errdf in
                case assert_all_eq (series site errdf) (series site sel) ''Inconsistent sites'' of
                  Some e \<Rightarrow> Inl e
                | None \<Rightarrow>
                   (case assert_all_eq (series wildtype errdf) (series wildtype sel)
                           ''Inconsistent sites'' of
                      Some e \<Rightarrow> Inl e
                    | None \<Rightarrow> Inr (Some errdf))))"

definition check_args ::
  "frame \<Rightarrow> frame \<Rightarrow> string list \<Rightarrow> real \<Rightarrow> frame option
   \<Rightarrow> error + (frame \<times> frame \<times> frame option)" where
  "check_args sel mock countcharacters pseudocount err =
     (if \<not> 0 < pseudocount then Inl (AssertionError [])
      else if set (columns sel) \<noteq> expectedcols countcharacters
      then Inl (AssertionError ''Invalid columns for sel'')
      else if set (columns mock) \<noteq> expectedcols countcharacters
      then Inl (AssertionError ''Invalid columns for sel'')
      else (let sel = sort_values_site sel; mock = sort_values_site mock in
            case assert_all_eq (series site sel) (series site mock) ''Inconsistent sites'' of
              Some e \<Rightarrow> Inl e
            | None \<Rightarrow>
               (case assert_all_eq (series wildtype sel) (series wildtype mock)
                       ''Inconsistent wildtype'' of
                  Some e \<Rightarrow> Inl e
                | None \<Rightarrow>
                    bind (check_err countcharacters sel err) (\<lambda>err. Inr (sel, mock, err)))))"

definition computeMutDiffSel ::
  "string list \<Rightarrow> (string \<rightharpoonup> string) \<Rightarrow> frame \<Rightarrow> frame \<Rightarrow> string list \<Rightarrow> real \<Rightarrow> bool
   \<Rightarrow> frame option \<Rightarrow> real \<Rightarrow> error + out_row list" where
  "computeMutDiffSel CODONS CODON_TO_AA sel mock countcharacters pseudocount translate_to_aa
     err mincount =
     bind (check_args sel mock countcharacters pseudocount err) (\<lambda>(sel, mock, err).
     bind (melted sel mock err) (\<lambda>(m, errs).
     bind (case errs of None \<Rightarrow> Inr m | Some es \<Rightarrow> error_correction m es) (\<lambda>m.
     bind (if translate_to_aa then translate CODONS CODON_TO_AA countcharacters m else Inr m)
       (\<lambda>m. Inr (diffsel_rows pseudocount mincount m)))))"

subsection \<open>mutToSiteDiffSel\<close>

text \<open>
  \<^verbatim>\<open>pivot(index='site', columns='mutation', values='mutdiffsel')\<close> raises
  ValueError when a pair of site and mutation occurs twice. Otherwise it
  gives one row per site and one column per mutation, both sorted, with NaN
  where the table has no row for the pair.
\<close>

definition pivot :: "out_row list \<Rightarrow> error + (int \<times> fl list) list" where
  "pivot t =
     (if \<not> distinct (map (\<lambda>r. (o_site r, o_mutation r)) t)
      then Inl (ValueError ''Index contains duplicate entries, cannot reshape'')
      else Inr (map (\<lambda>s. (s, map (\<lambda>c. case find (\<lambda>r. o_site r = s \<and> o_mutation r = c) t of
                                         None \<Rightarrow> NaN | Some r \<Rightarrow> mutdiffsel r)
                               (sort (remdups (map o_mutation t)))))
                    (sort (remdups (map o_site t)))))"

text \<open>Maximum and minimum of a row, NaN skipped; NaN when nothing is left.\<close>

definition pd_max :: "fl list \<Rightarrow> fl" where
  "pd_max xs = (case filter (\<lambda>x. x \<noteq> NaN) xs of [] \<Rightarrow> NaN | y # ys \<Rightarrow> fold maximum ys y)"

definition pd_min :: "fl list \<Rightarrow> fl" where
  "pd_min xs = (case filter (\<lambda>x. x \<noteq> NaN) xs of [] \<Rightarrow> NaN | y # ys \<Rightarrow> fold minimum ys y)"

record site_row =
  s_site :: int
  abs_diffsel :: fl
  positive_diffsel :: fl
  negative_diffsel :: fl
  max_diffsel :: fl
  min_diffsel :: fl

text \<open>
  The five summaries are functions of the pivoted and zero-filled frame
  \<^verbatim>\<open>x\<close> alone, as the doctest of the function shows. \<^verbatim>\<open>x[x >= 0]\<close> puts NaN
  where the condition fails, and the sum skips it.
\<close>

definition site_summary :: "int \<times> fl list \<Rightarrow> site_row" where
  "site_summary p =
     (let x = map (fillna 0) (snd p) in
      \<lparr>s_site = fst p,
       abs_diffsel = pd_sum (map fabs x),
       positive_diffsel = pd_sum (map (\<lambda>v. if fge v 0 then v else NaN) x),
       negative_diffsel = pd_sum (map (\<lambda>v. if fle v 0 then v else NaN) x),
       max_diffsel = pd_max x,
       min_diffsel = pd_min x\<rparr>)"

definition mutToSiteDiffSel :: "out_row list \<Rightarrow> error + site_row list" where
  "mutToSiteDiffSel t = bind (pivot t) (\<lambda>x. Inr (map site_summary x))"

section \<open>Notions for the statements\<close>

subsection \<open>Valid tables\<close>

text \<open>
  The tables the statements are about. A valid table has distinct column
  labels, which are \<^verbatim>\<open>site\<close>, \<^verbatim>\<open>wildtype\<close> and the characters; distinct
  sites; a wildtype that is one of its characters in every row; and counts
  that are not negative. Two tables are aligned when, sorted by site, they
  carry the same row labels, the same sites and the same wildtypes: this is
  what the assertions of lines 51, 52, 57 and 58 ask for. \<open>row_total\<close> is the
  sum of a row over the count columns.
\<close>

definition row_total :: "frame \<Rightarrow> count_row \<Rightarrow> int" where
  "row_total df r = sum_list (map (cell r) (value_vars df))"


definition aligned :: "frame \<Rightarrow> frame \<Rightarrow> bool" where
  "aligned a b \<longleftrightarrow>
     map label (sort_key site (rows a)) = map label (sort_key site (rows b)) \<and>
     map site (sort_key site (rows a)) = map site (sort_key site (rows b)) \<and>
     map wildtype (sort_key site (rows a)) = map wildtype (sort_key site (rows b))"


subsection \<open>The frame of counts\<close>

text \<open>
  The melted row of a table row and a character, and the frame \<^verbatim>\<open>m\<close> that
  two aligned tables give: for every site in ascending order and every
  character in sorted order, the counts of the two samples and the totals of
  the site. \<open>err_cols\<close> holds the columns \<^verbatim>\<open>nerr\<close> and \<^verbatim>\<open>Nerr\<close> of an error
  control in the same order.
\<close>

definition long_of :: "count_row \<Rightarrow> string \<Rightarrow> long_row" where
  "long_of r c = \<lparr>l_site = site r, l_wildtype = wildtype r, l_mutation = c, n = cell r c\<rparr>"

definition site_pairs :: "frame \<Rightarrow> frame \<Rightarrow> (count_row \<times> count_row) list" where
  "site_pairs sel mock = zip (sort_key site (rows sel)) (sort_key site (rows mock))"

definition row_m :: "frame \<Rightarrow> frame \<Rightarrow> count_row \<times> count_row \<Rightarrow> string \<Rightarrow> mrow" where
  "row_m sel mock p c =
     \<lparr>m_site = site (fst p), m_wildtype = wildtype (fst p), mutation = c,
      nsel = of_count (cell (fst p) c), Nsel = of_count (row_total sel (fst p)),
      nmock = of_count (cell (snd p) c), Nmock = of_count (row_total mock (snd p))\<rparr>"



text \<open>
  \<open>repl\<close> is the translation of a character when the call translates,
  \<open>count_of\<close> the count of a character or, when the call translates, of an
  amino acid (the sum over its codons) in a table row, \<open>counts_frame\<close> the
  frame \<^verbatim>\<open>m\<close> to which the pseudocounts are added, \<open>row_of_pair\<close> its row for
  a site and a character, and \<open>out_at\<close> the row of the result that comes from
  it.
\<close>

definition repl :: "bool \<Rightarrow> (string \<rightharpoonup> string) \<Rightarrow> string \<Rightarrow> string" where
  "repl translate_to_aa d c = (if translate_to_aa then replace d c else c)"

definition count_of ::
  "bool \<Rightarrow> (string \<rightharpoonup> string) \<Rightarrow> frame \<Rightarrow> count_row \<Rightarrow> string \<Rightarrow> int" where
  "count_of translate_to_aa d df r a =
     sum_list (map (cell r) (filter (\<lambda>c. repl translate_to_aa d c = a) (value_vars df)))"


definition row_of_pair ::
  "bool \<Rightarrow> (string \<rightharpoonup> string) \<Rightarrow> frame \<Rightarrow> frame \<Rightarrow> count_row \<times> count_row \<Rightarrow> string \<Rightarrow> mrow" where
  "row_of_pair translate_to_aa d sel mock p a =
     \<lparr>m_site = site (fst p), m_wildtype = repl translate_to_aa d (wildtype (fst p)), mutation = a,
      nsel = of_count (count_of translate_to_aa d sel (fst p) a),
      Nsel = of_count (row_total sel (fst p)),
      nmock = of_count (count_of translate_to_aa d mock (snd p) a),
      Nmock = of_count (row_total mock (snd p))\<rparr>"

definition out_at ::
  "bool \<Rightarrow> (string \<rightharpoonup> string) \<Rightarrow> frame \<Rightarrow> frame \<Rightarrow> real \<Rightarrow> real
   \<Rightarrow> count_row \<times> count_row \<Rightarrow> string \<Rightarrow> out_row" where
  "out_at translate_to_aa d sel mock pseudocount mincount q a =
     out_of pseudocount mincount
       (row_of_pair translate_to_aa d sel mock q a,
        row_of_pair translate_to_aa d sel mock q (repl translate_to_aa d (wildtype (fst q))))"

subsection \<open>Values\<close>

text \<open>
  A value that a sum can take up (neither NaN nor minus infinity), and what
  a NaN entry contributes to a sum that skips NaN.
\<close>

definition addable :: "fl \<Rightarrow> bool" where
  "addable x \<longleftrightarrow> x \<noteq> NaN \<and> x \<noteq> NInf"

definition skipna :: "fl \<Rightarrow> fl" where
  "skipna x = (if x = NaN then Fin 0 else x)"





definition swap_row :: "mrow \<Rightarrow> mrow" where
  "swap_row r = r\<lparr>nsel := nmock r, Nsel := Nmock r, nmock := nsel r, Nmock := Nsel r\<rparr>"

subsection \<open>Example tables\<close>

text \<open>The table of the doctest of \<^verbatim>\<open>mutToSiteDiffSel\<close>, melted column by column.\<close>

definition doctest_table :: "out_row list" where
  "doctest_table =
     [\<lparr>o_site = 1, o_wildtype = ''A'', o_mutation = ''A'', mutdiffsel = NaN\<rparr>,
      \<lparr>o_site = 2, o_wildtype = ''C'', o_mutation = ''A'', mutdiffsel = Fin 4.1\<rparr>,
      \<lparr>o_site = 1, o_wildtype = ''A'', o_mutation = ''C'', mutdiffsel = Fin (- 0.2)\<rparr>,
      \<lparr>o_site = 2, o_wildtype = ''C'', o_mutation = ''C'', mutdiffsel = NaN\<rparr>,
      \<lparr>o_site = 1, o_wildtype = ''A'', o_mutation = ''G'', mutdiffsel = Fin 3.2\<rparr>,
      \<lparr>o_site = 2, o_wildtype = ''C'', o_mutation = ''G'', mutdiffsel = Fin 0.1\<rparr>,
      \<lparr>o_site = 1, o_wildtype = ''A'', o_mutation = ''T'', mutdiffsel = Fin (- 0.2)\<rparr>,
      \<lparr>o_site = 2, o_wildtype = ''C'', o_mutation = ''T'', mutdiffsel = Fin 0.0\<rparr>]"

text \<open>A table in which site 1 has two rows for the mutation C.\<close>

definition duplicate_table :: "out_row list" where
  "duplicate_table =
     [\<lparr>o_site = 1, o_wildtype = ''A'', o_mutation = ''C'', mutdiffsel = Fin 1\<rparr>,
      \<lparr>o_site = 1, o_wildtype = ''A'', o_mutation = ''C'', mutdiffsel = Fin 2\<rparr>]"

text \<open>
  A table with the single site 1, wildtype A, and the given counts of A, C
  and G.
\<close>

definition one_site :: "int \<Rightarrow> int \<Rightarrow> int \<Rightarrow> frame" where
  "one_site a c g =
     \<lparr>columns = [''site'', ''wildtype'', ''A'', ''C'', ''G''],
      rows = [\<lparr>label = 0, site = 1, wildtype = ''A'',
               cell = (\<lambda>x. if x = ''A'' then a else if x = ''C'' then c
                           else if x = ''G'' then g else 0)\<rparr>]\<rparr>"

definition ACG :: "string list" where
  "ACG = [''A'', ''C'', ''G'']"

text \<open>Tables over A and C with the given sites, all of wildtype A, every count \<open>1\<close>.\<close>

definition unit_row :: "int \<Rightarrow> int \<Rightarrow> string \<Rightarrow> count_row" where
  "unit_row l s w = \<lparr>label = l, site = s, wildtype = w, cell = (\<lambda>c. 1)\<rparr>"

definition AC_frame :: "count_row list \<Rightarrow> frame" where
  "AC_frame rs = \<lparr>columns = [''site'', ''wildtype'', ''A'', ''C''], rows = rs\<rparr>"

definition sites_123 :: frame where
  "sites_123 = AC_frame [unit_row 0 1 ''A'', unit_row 1 2 ''A'', unit_row 2 3 ''A'']"

definition sites_124 :: frame where
  "sites_124 = AC_frame [unit_row 0 1 ''A'', unit_row 1 2 ''A'', unit_row 2 4 ''A'']"

text \<open>
  A frame \<^verbatim>\<open>m\<close> of one site with the three characters A, C and G, wildtype
  A, a table that sends A and C to K and G to R, and the translated frame.
\<close>

definition toy_code :: "string \<rightharpoonup> string" where
  "toy_code = [''A'' \<mapsto> ''K'', ''C'' \<mapsto> ''K'', ''G'' \<mapsto> ''R'']"

definition toy_row :: "string \<Rightarrow> string \<Rightarrow> real \<Rightarrow> real \<Rightarrow> mrow" where
  "toy_row w c a b =
     \<lparr>m_site = 1, m_wildtype = w, mutation = c, nsel = Fin a, Nsel = Fin 4,
      nmock = Fin b, Nmock = Fin 4\<rparr>"

definition toy_m :: "mrow list" where
  "toy_m = [toy_row ''A'' ''A'' 3 1, toy_row ''A'' ''C'' 1 0, toy_row ''A'' ''G'' 0 3]"

definition toy_t :: "mrow list" where
  "toy_t = [toy_row ''K'' ''K'' 4 1, toy_row ''K'' ''R'' 0 3]"






section \<open>Properties\<close>

subsection \<open>Float arithmetic\<close>

lemma fadd_commute: "fadd x y = fadd y x"
  by (cases x; cases y; simp)

lemma fadd_assoc: "fadd (fadd x y) z = fadd x (fadd y z)"
  by (cases x; cases y; cases z; simp)

lemma fadd_left_commute: "fadd x (fadd y z) = fadd y (fadd x z)"
  by (cases x; cases y; cases z; simp)

lemma fadd_zero [simp]: "fadd (Fin 0) x = x" "fadd x (Fin 0) = x"
  by (cases x; simp)+


lemma fabs_NaN_iff [simp]: "fabs x = NaN \<longleftrightarrow> x = NaN" "NaN = fabs x \<longleftrightarrow> x = NaN"
  by (cases x; simp)+




subsection \<open>Site summaries\<close>



lemmas site_defs = mutToSiteDiffSel_def bind_def pivot_def site_summary_def pd_sum_def
  pd_max_def pd_min_def fillna_def

text \<open>The doctest: the sums, maxima and minima of the two sites.\<close>

lemma mutToSiteDiffSel_doctest:
  "mutToSiteDiffSel doctest_table =
     Inr [\<lparr>s_site = 1, abs_diffsel = Fin 3.6, positive_diffsel = Fin 3.2,
           negative_diffsel = Fin (- 0.4), max_diffsel = Fin 3.2, min_diffsel = Fin (- 0.2)\<rparr>,
          \<lparr>s_site = 2, abs_diffsel = Fin 4.2, positive_diffsel = Fin 4.2,
           negative_diffsel = Fin 0, max_diffsel = Fin 4.1, min_diffsel = Fin 0\<rparr>]"
  by (simp add: site_defs doctest_table_def)




text \<open>
  C10. \<^verbatim>\<open>mutToSiteDiffSel\<close> needs the pairs of site and mutation of its
  input to be unique: a table with two rows for the same site and mutation
  makes the pivot raise ValueError, and a table without such rows is
  summarised.
\<close>

theorem mutToSiteDiffSel_unique_pairs:
  "(\<not> distinct (map (\<lambda>r. (o_site r, o_mutation r)) t) \<longrightarrow>
      mutToSiteDiffSel t = Inl (ValueError ''Index contains duplicate entries, cannot reshape'')) \<and>
   (distinct (map (\<lambda>r. (o_site r, o_mutation r)) t) \<longrightarrow>
      (\<exists>out. mutToSiteDiffSel t = Inr out))"
  by (simp add: mutToSiteDiffSel_def bind_def pivot_def)

theorem mutToSiteDiffSel_unique_pairs_witness:
  "\<not> distinct (map (\<lambda>r. (o_site r, o_mutation r)) duplicate_table) \<and>
   mutToSiteDiffSel duplicate_table
     = Inl (ValueError ''Index contains duplicate entries, cannot reshape'') \<and>
   distinct (map (\<lambda>r. (o_site r, o_mutation r)) doctest_table) \<and>
   (\<exists>out. mutToSiteDiffSel doctest_table = Inr out)"
proof -
  have d: "\<not> distinct (map (\<lambda>r. (o_site r, o_mutation r)) duplicate_table)"
    by (simp add: duplicate_table_def)
  have u: "distinct (map (\<lambda>r. (o_site r, o_mutation r)) doctest_table)"
    by (simp add: doctest_table_def)
  show ?thesis
    using mutToSiteDiffSel_unique_pairs[of duplicate_table]
      mutToSiteDiffSel_unique_pairs[of doctest_table] d u by blast
qed

subsection \<open>The assertions on the arguments\<close>

lemma bind_Inl [simp]: "bind (Inl e) f = Inl e"
  by (simp add: bind_def)

lemma bind_Inr [simp]: "bind (Inr v) f = f v"
  by (simp add: bind_def)

lemma list_all_zip_eq:
  "length xs = length ys \<Longrightarrow>
   list_all (\<lambda>b. b) (map (\<lambda>(x, y). f x = f y) (zip xs ys)) \<longleftrightarrow> map f xs = map f ys"
  by (induction xs ys rule: list_induct2) auto

lemma assert_all_eq_cases:
  "assert_all_eq xs ys msg =
     (if map fst xs \<noteq> map fst ys
      then Some (ValueError ''Can only compare identically-labeled Series objects'')
      else if map snd xs \<noteq> map snd ys then Some (AssertionError msg) else None)"
proof (cases "map fst xs = map fst ys")
  case True
  then have "length xs = length ys" by (metis length_map)
  from list_all_zip_eq[OF this, of snd] True show ?thesis
    by (simp add: assert_all_eq_def series_eq_def)
next
  case False
  then show ?thesis by (simp add: assert_all_eq_def series_eq_def)
qed

lemma map_fst_series [simp]: "map fst (series f df) = map label (rows df)"
  by (simp add: series_def comp_def)

lemma map_snd_series [simp]: "map snd (series f df) = map f (rows df)"
  by (simp add: series_def comp_def)

lemma rows_sort_values_site [simp]: "rows (sort_values_site df) = sort_key site (rows df)"
  by (simp add: sort_values_site_def)

lemma columns_sort_values_site [simp]: "columns (sort_values_site df) = columns df"
  by (simp add: sort_values_site_def)

lemma map_sort_key: "map f (sort_key f xs) = sort (map f xs)"
  by (rule properties_for_sort[symmetric]) (simp_all add: sorted_sort_key)

text \<open>The assertions of lines 43 to 52, in the order in which they fail.\<close>

lemma check_args_cases:
  "check_args sel mock countcharacters pseudocount err =
    (if \<not> 0 < pseudocount then Inl (AssertionError [])
     else if set (columns sel) \<noteq> expectedcols countcharacters
       then Inl (AssertionError ''Invalid columns for sel'')
     else if set (columns mock) \<noteq> expectedcols countcharacters
       then Inl (AssertionError ''Invalid columns for sel'')
     else if map label (sort_key site (rows sel)) \<noteq> map label (sort_key site (rows mock))
       then Inl (ValueError ''Can only compare identically-labeled Series objects'')
     else if sort (map site (rows sel)) \<noteq> sort (map site (rows mock))
       then Inl (AssertionError ''Inconsistent sites'')
     else if map wildtype (sort_key site (rows sel)) \<noteq> map wildtype (sort_key site (rows mock))
       then Inl (AssertionError ''Inconsistent wildtype'')
     else bind (check_err countcharacters (sort_values_site sel) err)
            (\<lambda>err. Inr (sort_values_site sel, sort_values_site mock, err)))"
  by (simp add: check_args_def assert_all_eq_cases Let_def map_sort_key)

lemma wildtype_mismatch:
  assumes d: "distinct (map site xs)"
    and s: "map site xs = map site ys"
    and rs: "rs \<in> set xs" and rm: "rm \<in> set ys"
    and same: "site rs = site rm" and diff: "wildtype rs \<noteq> wildtype rm"
  shows "map wildtype xs \<noteq> map wildtype ys"
proof
  assume w: "map wildtype xs = map wildtype ys"
  have len: "length xs = length ys" using s by (metis length_map)
  from rs obtain i where i: "i < length xs" "xs ! i = rs" by (auto simp: in_set_conv_nth)
  from rm obtain j where j: "j < length ys" "ys ! j = rm" by (auto simp: in_set_conv_nth)
  have "map site xs ! i = map site xs ! j"
    using i j same s len by (metis nth_map)
  moreover have "i < length (map site xs)" "j < length (map site xs)" using i j len by simp_all
  ultimately have "i = j" using d nth_eq_iff_index_eq by blast
  then have "wildtype rs = wildtype rm"
    using w i j len by (metis nth_map)
  with diff show False by simp
qed

lemmas model_defs = computeMutDiffSel_def check_args_def check_err_def expectedcols_def
  sort_values_site_def assert_all_eq_def series_eq_def series_def bind_def melted_def
  m_name_def melt_def value_vars_def same_keys_def join_row_def N_def of_count_def
  diffsel_rows_def merge_wt_def out_of_def enrichment_def nselP_def nmockP_def wtmask_def
  error_correction_def correct_sel_def correct_mock_def corrected_def epsilon_def
  m_columns_def truthy_def pd_sum_def fsub_def inf_of_sign_def
  translate_def groupby_sum_def group_row_def group_key_def to_aa_def replace_def of_fkey_def

lemmas test_defs = one_site_def ACG_def unit_row_def AC_frame_def sites_123_def sites_124_def

text \<open>
  C8. When the sites of \<^verbatim>\<open>sel\<close> and \<^verbatim>\<open>mock\<close> differ after sorting, or the
  two tables give different wildtypes to a site they share, the call raises
  in the assertions on the arguments, before the frames are melted and
  before any count is read: an AssertionError "Inconsistent sites" or
  "Inconsistent wildtype", or the ValueError of pandas when the two sorted
  tables are not labelled alike. No table is returned. (The assertions on
  \<^verbatim>\<open>pseudocount\<close> and on the columns come first and are assumed to pass.)
\<close>

theorem misaligned_tables_raise:
  assumes p: "0 < pseudocount"
    and cs: "set (columns sel) = expectedcols countcharacters"
    and cm: "set (columns mock) = expectedcols countcharacters"
    and mis: "sort (map site (rows sel)) \<noteq> sort (map site (rows mock)) \<or>
              (distinct (map site (rows sel)) \<and>
               (\<exists>rs\<in>set (rows sel). \<exists>rm\<in>set (rows mock).
                   site rs = site rm \<and> wildtype rs \<noteq> wildtype rm))"
  shows "\<exists>e\<in>{AssertionError ''Inconsistent sites'', AssertionError ''Inconsistent wildtype'',
              ValueError ''Can only compare identically-labeled Series objects''}.
           check_args sel mock countcharacters pseudocount err = Inl e \<and>
           computeMutDiffSel CODONS CODON_TO_AA sel mock countcharacters pseudocount
             translate_to_aa err mincount = Inl e"
proof -
  have *: "sort (map site (rows sel)) = sort (map site (rows mock)) \<Longrightarrow>
           map wildtype (sort_key site (rows sel)) \<noteq> map wildtype (sort_key site (rows mock))"
  proof -
    assume eq: "sort (map site (rows sel)) = sort (map site (rows mock))"
    with mis obtain rs rm where d: "distinct (map site (rows sel))"
      and r: "rs \<in> set (rows sel)" "rm \<in> set (rows mock)" "site rs = site rm"
        "wildtype rs \<noteq> wildtype rm" by auto
    show ?thesis
    proof (rule wildtype_mismatch[where rs = rs and rm = rm])
      show "distinct (map site (sort_key site (rows sel)))"
        using d by (simp add: map_sort_key)
      show "map site (sort_key site (rows sel)) = map site (sort_key site (rows mock))"
        using eq by (simp add: map_sort_key)
    qed (use r in simp_all)
  qed
  show ?thesis
    using p cs cm * by (auto simp: computeMutDiffSel_def check_args_cases)
qed

theorem misaligned_tables_raise_witness:
  "(0::real) < 1 \<and>
   set (columns sites_123) = expectedcols [''A'', ''C''] \<and>
   set (columns sites_124) = expectedcols [''A'', ''C''] \<and>
   sort (map site (rows sites_123)) \<noteq> sort (map site (rows sites_124)) \<and>
   check_args sites_123 sites_124 [''A'', ''C''] 1 None
     = Inl (AssertionError ''Inconsistent sites'') \<and>
   computeMutDiffSel [] Map.empty sites_123 sites_124 [''A'', ''C''] 1 False None 0
     = Inl (AssertionError ''Inconsistent sites'')"
proof -
  have c1: "set (columns sites_123) = expectedcols [''A'', ''C'']"
    and c2: "set (columns sites_124) = expectedcols [''A'', ''C'']"
    by (auto simp: test_defs expectedcols_def)
  have m: "sort (map site (rows sites_123)) \<noteq> sort (map site (rows sites_124))"
    by (simp add: test_defs)
  have l: "map label (sort_key site (rows sites_123)) = map label (sort_key site (rows sites_124))"
    by (simp add: test_defs)
  from misaligned_tables_raise[of 1 sites_123 "[''A'', ''C'']" sites_124 None "[]" Map.empty
      False 0, OF _ c1 c2] m
  obtain e where "check_args sites_123 sites_124 [''A'', ''C''] 1 None = Inl e"
    and "computeMutDiffSel [] Map.empty sites_123 sites_124 [''A'', ''C''] 1 False None 0 = Inl e"
    by auto
  moreover have "check_args sites_123 sites_124 [''A'', ''C''] 1 None
      = Inl (AssertionError ''Inconsistent sites'')"
    using c1 c2 m l by (simp add: check_args_cases)
  ultimately show ?thesis using c1 c2 m by simp
qed

subsection \<open>The arguments that are not checked\<close>

lemma computeMutDiffSel_error_mincount:
  "computeMutDiffSel CODONS CODON_TO_AA sel mock countcharacters pseudocount translate_to_aa
     err mincount = Inl e \<Longrightarrow>
   computeMutDiffSel CODONS CODON_TO_AA sel mock countcharacters pseudocount translate_to_aa
     err mincount' = Inl e"
  by (auto simp: computeMutDiffSel_def bind_def split: sum.splits prod.splits if_splits)

text \<open>
  C9, as the code has it. \<^verbatim>\<open>mincount\<close> is not validated: whether a call
  raises, and what it raises, does not depend on \<^verbatim>\<open>mincount\<close>, which is
  used as the threshold as it is given, negative or fractional. Only
  \<^verbatim>\<open>pseudocount\<close> is asserted: a call with \<open>pseudocount \<le> 0\<close> raises an
  AssertionError at once.
\<close>

theorem mincount_not_validated:
  "(pseudocount \<le> 0 \<longrightarrow>
      computeMutDiffSel CODONS CODON_TO_AA sel mock countcharacters pseudocount translate_to_aa
        err mincount = Inl (AssertionError [])) \<and>
   ((computeMutDiffSel CODONS CODON_TO_AA sel mock countcharacters pseudocount translate_to_aa
        err mincount = Inl e) =
    (computeMutDiffSel CODONS CODON_TO_AA sel mock countcharacters pseudocount translate_to_aa
        err mincount' = Inl e))"
proof -
  have "pseudocount \<le> 0 \<Longrightarrow>
      computeMutDiffSel CODONS CODON_TO_AA sel mock countcharacters pseudocount translate_to_aa
        err mincount = Inl (AssertionError [])"
    by (simp add: computeMutDiffSel_def check_args_cases)
  then show ?thesis
    using computeMutDiffSel_error_mincount[of _ _ _ _ _ _ _ _ mincount e mincount']
      computeMutDiffSel_error_mincount[of _ _ _ _ _ _ _ _ mincount' e mincount]
    by blast
qed

theorem mincount_not_validated_witness:
  "(0::real) \<le> 0 \<and>
   computeMutDiffSel [] Map.empty (one_site 3 1 0) (one_site 1 0 3) ACG 0 False None (- 1)
     = Inl (AssertionError [])"
  using mincount_not_validated[of 0 "[]" Map.empty "one_site 3 1 0" "one_site 1 0 3" ACG False
      None "- 1"]
  by simp

text \<open>
  The claim C9 itself fails: with \<open>mincount = -1\<close> and with \<open>mincount = 1/2\<close> the
  call returns the table that \<open>mincount = 0\<close> gives.
\<close>

theorem mincount_negative_or_fractional_accepted:
  "computeMutDiffSel [] Map.empty (one_site 3 1 0) (one_site 1 0 3) ACG 1 False None (- 1)
     = Inr [\<lparr>o_site = 1, o_wildtype = ''A'', o_mutation = ''A'', mutdiffsel = NaN\<rparr>,
            \<lparr>o_site = 1, o_wildtype = ''A'', o_mutation = ''C'', mutdiffsel = Fin 0\<rparr>,
            \<lparr>o_site = 1, o_wildtype = ''A'', o_mutation = ''G'',
             mutdiffsel = Fin (log 2 (1 / 8))\<rparr>] \<and>
   computeMutDiffSel [] Map.empty (one_site 3 1 0) (one_site 1 0 3) ACG 1 False None (1 / 2)
     = Inr [\<lparr>o_site = 1, o_wildtype = ''A'', o_mutation = ''A'', mutdiffsel = NaN\<rparr>,
            \<lparr>o_site = 1, o_wildtype = ''A'', o_mutation = ''C'', mutdiffsel = Fin 0\<rparr>,
            \<lparr>o_site = 1, o_wildtype = ''A'', o_mutation = ''G'',
             mutdiffsel = Fin (log 2 (1 / 8))\<rparr>]"
  by (simp add: model_defs test_defs)

subsection \<open>The assertion on the error control\<close>


text \<open>
  C7 asks for an error when the error control has the count \<open>0\<close> at the
  wildtype of a site. Here the control has no A at site 1, whose wildtype is
  A: the call returns a table, with NaN everywhere.
\<close>

theorem zero_wildtype_control_returns:
  "computeMutDiffSel [] Map.empty (one_site 3 1 0) (one_site 1 0 3) ACG 1 False
     (Some (one_site 0 1 0)) 0
     = Inr [\<lparr>o_site = 1, o_wildtype = ''A'', o_mutation = ''A'', mutdiffsel = NaN\<rparr>,
            \<lparr>o_site = 1, o_wildtype = ''A'', o_mutation = ''C'', mutdiffsel = NaN\<rparr>,
            \<lparr>o_site = 1, o_wildtype = ''A'', o_mutation = ''G'', mutdiffsel = NaN\<rparr>]"
  by (simp add: model_defs test_defs)

subsection \<open>Translation to amino acids\<close>

lemma fkey_inj [simp]: "fkey x = fkey y \<longleftrightarrow> x = y"
  by (cases x; cases y; simp)

lemma of_fkey_fkey [simp]: "of_fkey (fkey x) = x"
  by (cases x; simp add: of_fkey_def)

lemma addable_fadd: "addable x \<Longrightarrow> addable y \<Longrightarrow> addable (fadd x y)"
  by (cases x; cases y; simp add: addable_def)

lemma addable_fsum: "\<forall>x\<in>set xs. addable x \<Longrightarrow> addable (fsum xs)"
proof (induction xs)
  case Nil
  show ?case by (simp add: addable_def)
next
  case (Cons x xs)
  then show ?case by (simp add: addable_fadd)
qed

lemma pd_sum_skipna: "pd_sum xs = fsum (map skipna xs)"
  by (induction xs) (auto simp: pd_sum_def skipna_def)

lemma addable_skipna: "x \<noteq> NInf \<Longrightarrow> addable (skipna x)"
  by (simp add: addable_def skipna_def)

lemma skipna_addable [simp]: "addable x \<Longrightarrow> skipna x = x"
  by (simp add: addable_def skipna_def)

lemma fsum_zeros [simp]: "fsum (map (\<lambda>k. Fin 0) ks) = Fin 0"
  by (induction ks) auto

lemma fsum_add_at:
  "distinct ks \<Longrightarrow>
   fsum (map (\<lambda>k. if k0 = k then fadd a (G k) else G k) ks)
     = (if k0 \<in> set ks then fadd a (fsum (map G ks)) else fsum (map G ks))"
  by (induction ks) (auto simp: fadd_assoc fadd_left_commute)

lemma fsum_groups:
  assumes "distinct ks" and "\<forall>r\<in>set xs. key r \<in> set ks"
  shows "fsum (map (\<lambda>k. fsum (map f (filter (\<lambda>r. key r = k) xs))) ks) = fsum (map f xs)"
  using assms(2)
proof (induction xs)
  case Nil
  show ?case by simp
next
  case (Cons x xs)
  have "fsum (map (\<lambda>k. fsum (map f (filter (\<lambda>r. key r = k) (x # xs)))) ks)
      = fsum (map (\<lambda>k. if key x = k then fadd (f x) (fsum (map f (filter (\<lambda>r. key r = k) xs)))
                        else fsum (map f (filter (\<lambda>r. key r = k) xs))) ks)"
    by (rule arg_cong[where f = fsum]) auto
  also have "\<dots> = fadd (f x) (fsum (map (\<lambda>k. fsum (map f (filter (\<lambda>r. key r = k) xs))) ks))"
    using Cons.prems by (simp add: fsum_add_at[OF assms(1)])
  finally show ?case using Cons by simp
qed


lemma group_row_keys [simp]:
  "m_site (group_row K k) = fst k"
  "m_wildtype (group_row K k) = fst (snd k)"
  "mutation (group_row K k) = fst (snd (snd k))"
  "Nsel (group_row K k) = of_fkey (fst (snd (snd (snd k))))"
  "Nmock (group_row K k) = of_fkey (snd (snd (snd (snd k))))"
  by (cases k; simp add: group_row_def)+

lemma group_row_sums [simp]:
  "nsel (group_row K k) = pd_sum (map nsel (filter (\<lambda>r. group_key r = k) K))"
  "nmock (group_row K k) = pd_sum (map nmock (filter (\<lambda>r. group_key r = k) K))"
  by (cases k; simp add: group_row_def)+

lemma fst_group_key [simp]: "fst (group_key r) = m_site r"
  by (simp add: group_key_def)

lemma groupby_site_total:
  fixes col :: "mrow \<Rightarrow> fl"
  assumes col_group:
      "\<And>k. col (group_row K k) = pd_sum (map col (filter (\<lambda>r. group_key r = k) K))"
    and fin: "\<forall>r\<in>set K. col r \<noteq> NInf"
  shows "pd_sum (map col (filter (\<lambda>r. m_site r = s)
                   (map (group_row K) (sort (remdups (map group_key K))))))
         = pd_sum (map col (filter (\<lambda>r. m_site r = s) K))"
proof -
  define ks where "ks = filter (\<lambda>k. fst k = s) (sort (remdups (map group_key K)))"
  define Ks where "Ks = filter (\<lambda>r. m_site r = s) K"
  define g where "g k = fsum (map (skipna \<circ> col) (filter (\<lambda>r. group_key r = k) Ks))" for k
  have d: "distinct ks" by (simp add: ks_def)
  have cover: "\<forall>r\<in>set Ks. group_key r \<in> set ks" by (auto simp: ks_def Ks_def)
  have inner: "col (group_row K k) = g k" if "k \<in> set ks" for k
  proof -
    have "fst k = s" using that by (simp add: ks_def)
    then have "filter (\<lambda>r. group_key r = k) K = filter (\<lambda>r. group_key r = k) Ks"
      by (auto simp: Ks_def intro!: filter_cong)
    then show ?thesis by (simp add: col_group pd_sum_skipna g_def)
  qed
  have ok: "addable (g k)" for k
    unfolding g_def using fin by (intro addable_fsum) (auto simp: Ks_def intro: addable_skipna)
  have "filter (\<lambda>r. m_site r = s) (map (group_row K) (sort (remdups (map group_key K))))
      = map (group_row K) ks"
    by (simp add: ks_def filter_map comp_def)
  then have "pd_sum (map col (filter (\<lambda>r. m_site r = s)
                 (map (group_row K) (sort (remdups (map group_key K))))))
      = pd_sum (map (\<lambda>k. col (group_row K k)) ks)"
    by (simp add: comp_def)
  also have "\<dots> = pd_sum (map g ks)"
    using inner by (auto intro!: arg_cong[where f = pd_sum])
  also have "\<dots> = fsum (map g ks)"
    using ok by (simp add: pd_sum_skipna comp_def)
  also have "\<dots> = fsum (map (skipna \<circ> col) Ks)"
    unfolding g_def using d cover by (rule fsum_groups)
  also have "\<dots> = pd_sum (map col Ks)"
    by (simp add: pd_sum_skipna)
  finally show ?thesis by (simp add: Ks_def)
qed

lemma to_aa_simps [simp]:
  "m_site (to_aa d r) = m_site r"
  "m_wildtype (to_aa d r) = replace d (m_wildtype r)"
  "mutation (to_aa d r) = replace d (mutation r)"
  "nsel (to_aa d r) = nsel r" "Nsel (to_aa d r) = Nsel r"
  "nmock (to_aa d r) = nmock r" "Nmock (to_aa d r) = Nmock r"
  by (simp_all add: to_aa_def)

lemma map_col_filter_to_aa:
  assumes "\<And>r. col (to_aa d r) = col r" and "\<And>r. P (to_aa d r) = Q r"
  shows "map col (filter P (map (to_aa d) m)) = map col (filter Q m)"
  using assms by (induction m) auto

lemma group_key_eq_iff:
  "group_key r = group_key r' \<longleftrightarrow>
     m_site r = m_site r' \<and> m_wildtype r = m_wildtype r' \<and> mutation r = mutation r' \<and>
     Nsel r = Nsel r' \<and> Nmock r = Nmock r'"
  by (auto simp: group_key_def)

lemma groupby_sum_kept:
  "\<forall>r\<in>set m. Nsel r \<noteq> NaN \<and> Nmock r \<noteq> NaN \<Longrightarrow>
   groupby_sum m = map (group_row m) (sort (remdups (map group_key m)))"
  by (simp add: groupby_sum_def Let_def)

text \<open>
  Without error control the frame that reaches the translation has finite
  counts and totals: they are sums of the integers of the tables.
\<close>

lemma melted_counts_finite:
  assumes "melted sel mock None = Inr (m, e)"
  shows "\<forall>r\<in>set m. Nsel r \<noteq> NaN \<and> Nmock r \<noteq> NaN \<and> nsel r \<noteq> NInf \<and> nmock r \<noteq> NInf"
proof -
  from assms have "m = map (join_row (m_name sel) (m_name mock)) (zip (m_name sel) (m_name mock))"
    by (simp add: melted_def Let_def split: option.splits)
  then show ?thesis by (simp add: join_row_def of_count_def)
qed

text \<open>
  C5. The translation of codons to amino acids conserves the totals of every
  site: the sum of \<^verbatim>\<open>nsel\<close> (and of \<^verbatim>\<open>nmock\<close>) over the rows of a site is the
  same after the translation as before. Each row of the result carries the
  sum of the counts of the rows that translate to its wildtype and mutation
  (at its site, with its \<^verbatim>\<open>Nsel\<close> and \<^verbatim>\<open>Nmock\<close>), and a row whose mutation
  translates to the amino acid of its wildtype is found in a row of the
  result with mutation equal to wildtype. The sums are those of pandas, which
  skip NaN; the frame is any frame without NaN in \<^verbatim>\<open>Nsel\<close> and \<^verbatim>\<open>Nmock\<close>
  and without minus infinity in the counts, as it is when the counts come
  from the tables.
\<close>

theorem translation_conserves_site_totals:
  assumes t: "translate CODONS CODON_TO_AA countcharacters m = Inr t"
    and keys: "\<forall>r\<in>set m. Nsel r \<noteq> NaN \<and> Nmock r \<noteq> NaN"
    and counts: "\<forall>r\<in>set m. nsel r \<noteq> NInf \<and> nmock r \<noteq> NInf"
  shows "(\<forall>s. pd_sum (map nsel (filter (\<lambda>r. m_site r = s) t))
                 = pd_sum (map nsel (filter (\<lambda>r. m_site r = s) m)) \<and>
              pd_sum (map nmock (filter (\<lambda>r. m_site r = s) t))
                 = pd_sum (map nmock (filter (\<lambda>r. m_site r = s) m))) \<and>
         (\<forall>a\<in>set t.
              nsel a = pd_sum (map nsel (filter (\<lambda>r. m_site r = m_site a \<and>
                          replace CODON_TO_AA (m_wildtype r) = m_wildtype a \<and>
                          replace CODON_TO_AA (mutation r) = mutation a \<and>
                          Nsel r = Nsel a \<and> Nmock r = Nmock a) m)) \<and>
              nmock a = pd_sum (map nmock (filter (\<lambda>r. m_site r = m_site a \<and>
                          replace CODON_TO_AA (m_wildtype r) = m_wildtype a \<and>
                          replace CODON_TO_AA (mutation r) = mutation a \<and>
                          Nsel r = Nsel a \<and> Nmock r = Nmock a) m))) \<and>
         (\<forall>r\<in>set m. replace CODON_TO_AA (mutation r) = replace CODON_TO_AA (m_wildtype r) \<longrightarrow>
              (\<exists>a\<in>set t. m_site a = m_site r \<and>
                  m_wildtype a = replace CODON_TO_AA (m_wildtype r) \<and>
                  mutation a = m_wildtype a))"
proof -
  define K where "K = map (to_aa CODON_TO_AA) m"
  have K: "\<forall>r\<in>set K. Nsel r \<noteq> NaN \<and> Nmock r \<noteq> NaN" using keys by (simp add: K_def)
  have t_eq: "t = map (group_row K) (sort (remdups (map group_key K)))"
    using t groupby_sum_kept[OF K] by (simp add: translate_def K_def split: if_splits)
  have sums: "pd_sum (map nsel (filter (\<lambda>r. m_site r = s) t))
                 = pd_sum (map nsel (filter (\<lambda>r. m_site r = s) m))"
             "pd_sum (map nmock (filter (\<lambda>r. m_site r = s) t))
                 = pd_sum (map nmock (filter (\<lambda>r. m_site r = s) m))" for s
  proof -
    have "\<forall>r\<in>set K. nsel r \<noteq> NInf" "\<forall>r\<in>set K. nmock r \<noteq> NInf"
      using counts by (simp_all add: K_def)
    from groupby_site_total[of nsel K s, OF _ this(1)]
         groupby_site_total[of nmock K s, OF _ this(2)]
    show "pd_sum (map nsel (filter (\<lambda>r. m_site r = s) t))
                 = pd_sum (map nsel (filter (\<lambda>r. m_site r = s) m))"
         "pd_sum (map nmock (filter (\<lambda>r. m_site r = s) t))
                 = pd_sum (map nmock (filter (\<lambda>r. m_site r = s) m))"
      by (simp_all add: t_eq) (simp_all add: K_def map_col_filter_to_aa[where Q = "\<lambda>r. m_site r = s"])
  qed
  have groups: "nsel a = pd_sum (map nsel (filter (\<lambda>r. m_site r = m_site a \<and>
                          replace CODON_TO_AA (m_wildtype r) = m_wildtype a \<and>
                          replace CODON_TO_AA (mutation r) = mutation a \<and>
                          Nsel r = Nsel a \<and> Nmock r = Nmock a) m))"
               "nmock a = pd_sum (map nmock (filter (\<lambda>r. m_site r = m_site a \<and>
                          replace CODON_TO_AA (m_wildtype r) = m_wildtype a \<and>
                          replace CODON_TO_AA (mutation r) = mutation a \<and>
                          Nsel r = Nsel a \<and> Nmock r = Nmock a) m))" if "a \<in> set t" for a
  proof -
    from that obtain r0 where r0: "r0 \<in> set K" and a: "a = group_row K (group_key r0)"
      by (auto simp: t_eq)
    have key: "(group_key r = group_key r0) =
        (m_site r = m_site a \<and> m_wildtype r = m_wildtype a \<and> mutation r = mutation a \<and>
         Nsel r = Nsel a \<and> Nmock r = Nmock a)" for r
      by (simp add: a group_key_eq_iff) (simp add: group_key_def)
    have key': "(group_key (to_aa CODON_TO_AA r) = group_key r0) =
        (m_site r = m_site a \<and> replace CODON_TO_AA (m_wildtype r) = m_wildtype a \<and>
         replace CODON_TO_AA (mutation r) = mutation a \<and> Nsel r = Nsel a \<and> Nmock r = Nmock a)"
      for r
      using key[of "to_aa CODON_TO_AA r"] by simp
    have "map col (filter (\<lambda>r. group_key r = group_key r0) K)
        = map col (filter (\<lambda>r. m_site r = m_site a \<and>
                          replace CODON_TO_AA (m_wildtype r) = m_wildtype a \<and>
                          replace CODON_TO_AA (mutation r) = mutation a \<and>
                          Nsel r = Nsel a \<and> Nmock r = Nmock a) m)"
      if "\<And>r. col (to_aa CODON_TO_AA r) = col r" for col :: "mrow \<Rightarrow> fl"
      unfolding K_def using that key' by (rule map_col_filter_to_aa)
    from this[of nsel] this[of nmock]
    show "nsel a = pd_sum (map nsel (filter (\<lambda>r. m_site r = m_site a \<and>
                          replace CODON_TO_AA (m_wildtype r) = m_wildtype a \<and>
                          replace CODON_TO_AA (mutation r) = mutation a \<and>
                          Nsel r = Nsel a \<and> Nmock r = Nmock a) m))"
         "nmock a = pd_sum (map nmock (filter (\<lambda>r. m_site r = m_site a \<and>
                          replace CODON_TO_AA (m_wildtype r) = m_wildtype a \<and>
                          replace CODON_TO_AA (mutation r) = mutation a \<and>
                          Nsel r = Nsel a \<and> Nmock r = Nmock a) m))"
      by (simp_all add: a)
  qed
  have syn: "\<exists>a\<in>set t. m_site a = m_site r \<and>
                  m_wildtype a = replace CODON_TO_AA (m_wildtype r) \<and>
                  mutation a = m_wildtype a"
    if "r \<in> set m" "replace CODON_TO_AA (mutation r) = replace CODON_TO_AA (m_wildtype r)" for r
  proof -
    have "group_row K (group_key (to_aa CODON_TO_AA r)) \<in> set t"
      using that(1) by (simp add: t_eq K_def)
    moreover have "m_site (group_row K (group_key (to_aa CODON_TO_AA r))) = m_site r"
      "m_wildtype (group_row K (group_key (to_aa CODON_TO_AA r))) = replace CODON_TO_AA (m_wildtype r)"
      "mutation (group_row K (group_key (to_aa CODON_TO_AA r))) = replace CODON_TO_AA (m_wildtype r)"
      using that(2) by (simp_all add: group_key_def)
    ultimately show ?thesis by metis
  qed
  show ?thesis using sums groups syn by blast
qed


lemma translate_toy: "translate ACG toy_code ACG toy_m = Inr toy_t"
  by (simp add: model_defs test_defs toy_m_def toy_t_def toy_row_def toy_code_def)

theorem translation_conserves_site_totals_witness:
  "translate ACG toy_code ACG toy_m = Inr toy_t \<and>
   list_all (\<lambda>r. Nsel r \<noteq> NaN \<and> Nmock r \<noteq> NaN) toy_m \<and>
   list_all (\<lambda>r. nsel r \<noteq> NInf \<and> nmock r \<noteq> NInf) toy_m \<and>
   pd_sum (map nsel (filter (\<lambda>r. m_site r = 1) toy_t))
     = pd_sum (map nsel (filter (\<lambda>r. m_site r = 1) toy_m)) \<and>
   pd_sum (map nmock (filter (\<lambda>r. m_site r = 1) toy_t))
     = pd_sum (map nmock (filter (\<lambda>r. m_site r = 1) toy_m))"
proof -
  have h2: "\<forall>r\<in>set toy_m. Nsel r \<noteq> NaN \<and> Nmock r \<noteq> NaN"
    and h3: "\<forall>r\<in>set toy_m. nsel r \<noteq> NInf \<and> nmock r \<noteq> NInf"
    by (simp_all add: toy_m_def toy_row_def)
  from translation_conserves_site_totals[OF translate_toy h2 h3]
  show ?thesis using translate_toy h2 h3 by (simp only: list_all_iff)
qed

subsection \<open>The melted frame of valid tables\<close>

lemma long_of_simps [simp]:
  "l_site (long_of r c) = site r" "l_wildtype (long_of r c) = wildtype r"
  "l_mutation (long_of r c) = c" "n (long_of r c) = cell r c"
  by (simp_all add: long_of_def)












lemma value_vars_sort_values_site [simp]: "value_vars (sort_values_site df) = value_vars df"
  by (simp add: value_vars_def)

lemma total_sort_values_site [simp]: "row_total (sort_values_site df) = row_total df"
  by (simp add: row_total_def fun_eq_iff)

lemma sort_key_idem [simp]: "sort_key f (sort_key f xs) = sort_key f xs"
  by (simp add: sort_key_id_if_sorted sorted_sort_key)




lemma aligned_distinct:
  "aligned a b \<Longrightarrow> distinct (map site (rows a)) \<Longrightarrow> distinct (map site (rows b))"
  by (metis aligned_def distinct_sort map_sort_key)



subsection \<open>The frame of counts of a valid call\<close>







lemma site_pairs_length:
  assumes "aligned sel mock"
  shows "length (rows sel) = length (rows mock)"
proof -
  from assms have "map site (sort_key site (rows sel)) = map site (sort_key site (rows mock))"
    by (simp add: aligned_def)
  then have "length (map site (sort_key site (rows sel)))
      = length (map site (sort_key site (rows mock)))" by (rule arg_cong)
  then show ?thesis by simp
qed


lemma map_snd_site_pairs:
  "aligned sel mock \<Longrightarrow> map snd (site_pairs sel mock) = sort_key site (rows mock)"
  unfolding site_pairs_def by (rule map_snd_zip) (simp add: site_pairs_length)












lemma row_m_simps [simp]:
  "m_site (row_m sel mock p c) = site (fst p)"
  "m_wildtype (row_m sel mock p c) = wildtype (fst p)"
  "mutation (row_m sel mock p c) = c"
  "nsel (row_m sel mock p c) = of_count (cell (fst p) c)"
  "Nsel (row_m sel mock p c) = of_count (row_total sel (fst p))"
  "nmock (row_m sel mock p c) = of_count (cell (snd p) c)"
  "Nmock (row_m sel mock p c) = of_count (row_total mock (snd p))"
  by (simp_all add: row_m_def)





subsection \<open>Pseudocounts and enrichment as real numbers\<close>















subsection \<open>The rows of the result of a valid call\<close>

lemma row_of_pair_simps [simp]:
  "m_site (row_of_pair tr d sel mock q a) = site (fst q)"
  "m_wildtype (row_of_pair tr d sel mock q a) = repl tr d (wildtype (fst q))"
  "mutation (row_of_pair tr d sel mock q a) = a"
  "nsel (row_of_pair tr d sel mock q a) = Fin (real_of_int (count_of tr d sel (fst q) a))"
  "Nsel (row_of_pair tr d sel mock q a) = Fin (real_of_int (row_total sel (fst q)))"
  "nmock (row_of_pair tr d sel mock q a) = Fin (real_of_int (count_of tr d mock (snd q) a))"
  "Nmock (row_of_pair tr d sel mock q a) = Fin (real_of_int (row_total mock (snd q)))"
  by (simp_all add: row_of_pair_def of_count_def)


lemma out_at_simps [simp]:
  "o_site (out_at tr d sel mock p mc q a) = site (fst q)"
  "o_wildtype (out_at tr d sel mock p mc q a) = repl tr d (wildtype (fst q))"
  "o_mutation (out_at tr d sel mock p mc q a) = a"
  by (simp_all add: out_at_def out_of_def)




subsection \<open>Masking, and the exchange of the samples\<close>












lemma swap_row_simps [simp]:
  "m_site (swap_row r) = m_site r" "m_wildtype (swap_row r) = m_wildtype r"
  "mutation (swap_row r) = mutation r"
  "nsel (swap_row r) = nmock r" "Nsel (swap_row r) = Nmock r"
  "nmock (swap_row r) = nsel r" "Nmock (swap_row r) = Nsel r"
  by (simp_all add: swap_row_def)

lemma nselP_swap [simp]: "nselP p (swap_row r) = nmockP p r"
  by (simp add: nselP_def nmockP_def)

lemma nmockP_swap [simp]: "nmockP p (swap_row r) = nselP p r"
  by (simp add: nselP_def nmockP_def)






subsection \<open>The effect of the pseudocount\<close>




subsection \<open>The error correction\<close>












text \<open>
  On finite counts with positive totals, and a positive control count where
  the mutation is the wildtype, the corrected count is the real number
  \<open>n / epsilon\<close> or \<open>max 0 (N * (n / N - epsilon))\<close>.
\<close>

lemma corrected_real:
  assumes "0 < T" "0 < Te" "wt \<longrightarrow> ne \<noteq> 0"
  shows "corrected wt (Fin k) (Fin T) (epsilon (Fin ne, Fin Te))
         = Fin (if wt then k / (ne / Te) else max 0 (T * (k / T - ne / Te)))"
  using assms by (simp add: corrected_def epsilon_def fsub_def)



end
